theory Spec2Isabelle
  imports Main "HOL-Library.Word"
begin

unbundle bit_operations_syntax

section \<open>Data of superUser.c\<close>

text \<open>
  A \<^verbatim>\<open>wchar_t\<close> of the Windows build is a 16-bit code unit, an \<^verbatim>\<open>int\<close> and a
  \<^verbatim>\<open>DWORD\<close> are 32-bit values. A C string is the list of the code units a pointer
  points at: the string ends where the list ends or at the first 0 in it, so that every
  list stands for a string.
\<close>

type_synonym wchar = "16 word"
type_synonym wstring = "wchar list"
type_synonym cint = "32 word"
type_synonym dword = "32 word"

text \<open>The wide literal \<^verbatim>\<open>L"..."\<close> of an ASCII text.\<close>

definition L :: "string \<Rightarrow> wstring" where
  "L s = map of_char s"

text \<open>The bit-field struct \<^verbatim>\<open>options\<close> (superUser.c, lines 19-24).\<close>

record options =
  bReturnCode :: bool
  bSeamless :: bool
  bVerbose :: bool
  bWait :: bool

definition options0 :: options where
  "options0 = \<lparr>bReturnCode = False, bSeamless = False, bVerbose = False, bWait = False\<rparr>"

definition EXIT_CODE_BASE :: cint where
  "EXIT_CODE_BASE = 1000000"

text \<open>
  The process creation flags of \<^verbatim>\<open>windows.h\<close> that line 102 combines.
\<close>

definition CREATE_SUSPENDED :: dword where
  "CREATE_SUSPENDED = 0x00000004"

definition CREATE_NEW_CONSOLE :: dword where
  "CREATE_NEW_CONSOLE = 0x00000010"

definition EXTENDED_STARTUPINFO_PRESENT :: dword where
  "EXTENDED_STARTUPINFO_PRESENT = 0x00080000"

subsection \<open>Handles and the calls the program makes\<close>

text \<open>
  The kernel objects a run can hold. \<open>hNULL\<close> is the value a handle variable keeps when
  the call that should fill it fails.
\<close>

datatype handle = hNULL | TIProcess | TIToken | ChildProcess | ChildThread | ChildToken

text \<open>
  Every call that leaves the program is logged, in program order, with the arguments the
  claims are about and, where the callee reports one, its result.
\<close>

datatype event =
    PrintHelp
  | PrintError string dword
  | Verbose string
  | AcquireSeDebugPrivilege cint
  | CreateSystemContext cint
  | GetTrustedInstallerProcess cint
  | GetTrustedInstallerToken handle cint
  | WTSGetActiveConsoleSessionId dword
  | SetTokenInformation handle dword bool
  | SetAllPrivileges handle bool bool
  | InitializeProcThreadAttributeList
  | UpdateProcThreadAttribute handle
  | CreateProcessAsUser handle wstring dword bool bool
  | DeleteProcThreadAttributeList
  | CloseHandle handle
  | OpenProcessToken handle bool
  | ResumeThread handle
  | WaitForSingleObject handle
  | GetExitCodeProcess handle bool dword

text \<open>
  The functions of \<^verbatim>\<open>tokens.h\<close> and of the Windows API are not part of superUser.c;
  what they answer in one run is a parameter of the model.
\<close>

record os_env =
  acquireSeDebugPrivilege_ret :: cint
  createSystemContext_ret :: cint
  getTrustedInstallerProcess_ret :: cint
  getTrustedInstallerToken_ret :: cint
  activeConsoleSessionId :: dword
  setTokenInformation_ok :: bool
  setAllPrivileges_ok :: "handle \<Rightarrow> bool"
  createProcessAsUser_ok :: bool
  lastError :: dword
  openProcessToken_ok :: bool
  getExitCodeProcess_ok :: bool
  childExitCode :: dword

section \<open>Command line parsing\<close>

text \<open>\<^verbatim>\<open>!*p\<close>: the pointer is at the end of its string.\<close>

definition atEnd :: "wstring \<Rightarrow> bool" where
  "atEnd p = (case p of [] \<Rightarrow> True | c # _ \<Rightarrow> c = 0)"

text \<open>
  Lines 179-184 of \<^verbatim>\<open>getArgument\<close>: skip the program name, which may hold quoted
  blanks. \<open>0x22\<close> is the double quote, \<open>0x20\<close> the space, \<open>0x09\<close> the tab.
\<close>

fun skipProgramName :: "bool \<Rightarrow> wstring \<Rightarrow> wstring" where
  "skipProgramName bQuote [] = []"
| "skipProgramName bQuote (c # p) =
     (if c = 0 then c # p
      else if c = 0x22 then skipProgramName (\<not> bQuote) p
      else if \<not> bQuote \<and> (c = 0x20 \<or> c = 0x09) then c # p
      else skipProgramName bQuote p)"

text \<open>Line 194: \<^verbatim>\<open>while (*p == L' ' || *p == L'\t') p++;\<close>\<close>

fun skipSpaces :: "wstring \<Rightarrow> wstring" where
  "skipSpaces [] = []"
| "skipSpaces (c # p) = (if c = 0x20 \<or> c = 0x09 then skipSpaces p else c # p)"

text \<open>Line 201: \<^verbatim>\<open>while (*p && *p != L' ' && *p != L'\t') p++;\<close>\<close>

fun argEnd :: "wstring \<Rightarrow> wstring" where
  "argEnd [] = []"
| "argEnd (c # p) = (if c \<noteq> 0 \<and> c \<noteq> 0x20 \<and> c \<noteq> 0x09 then argEnd p else c # p)"

text \<open>
  Lines 174-185: on the first call the static cursor \<^verbatim>\<open>p\<close> is \<^verbatim>\<open>NULL\<close> (\<open>None\<close>)
  and is set behind the program name of \<open>cmdLine\<close>, which is what
  \<^verbatim>\<open>GetCommandLine()\<close> returns; later calls find it where the last one left it.
\<close>

definition initCursor :: "wstring \<Rightarrow> wstring option \<Rightarrow> wstring" where
  "initCursor cmdLine p = (case p of None \<Rightarrow> skipProgramName False cmdLine | Some q \<Rightarrow> q)"

text \<open>
  \<^verbatim>\<open>getArgument\<close> (lines 170-213). The static cursor \<^verbatim>\<open>p\<close> is passed in and handed
  back. The second component is \<open>None\<close> for \<^verbatim>\<open>FALSE\<close> and holds the copied argument
  and \<^verbatim>\<open>*ppArgumentIndex\<close> for \<^verbatim>\<open>TRUE\<close>. A pointer into the command line is the
  rest of the line from there on.
\<close>

definition getArgument :: "wstring \<Rightarrow> wstring option \<Rightarrow> wstring \<times> (wstring \<times> wstring) option" where
  "getArgument cmdLine p =
     (let p1 = initCursor cmdLine p;
          pBegin = skipSpaces p1
      in if \<not> atEnd pBegin then
           (let p2 = argEnd pBegin
            in (p2, Some (take (length pBegin - length p2) pBegin, pBegin)))
         else (pBegin, None))"

text \<open>
  The inner loop of \<^verbatim>\<open>wmain\<close> (lines 258-283) over the characters of one argument
  from index 1 on. It returns \<^verbatim>\<open>errCode\<close>, the options and what was printed.
  \<open>0x68\<close>, \<open>0x72\<close>, \<open>0x73\<close>, \<open>0x76\<close>, \<open>0x77\<close> are the letters h, r, s, v, w.
\<close>

fun parseOptionChars :: "wstring \<Rightarrow> options \<Rightarrow> cint \<times> options \<times> event list" where
  "parseOptionChars [] opts = (0, opts, [])"
| "parseOptionChars (opt # rest) opts =
     (if opt = 0 then (0, opts, [])
      else if opt = 0x68 then (- 1, opts, [PrintHelp])
      else if opt = 0x72 then parseOptionChars rest (opts\<lparr>bReturnCode := True\<rparr>)
      else if opt = 0x73 then parseOptionChars rest (opts\<lparr>bSeamless := True\<rparr>)
      else if opt = 0x76 then parseOptionChars rest (opts\<lparr>bVerbose := True\<rparr>)
      else if opt = 0x77 then parseOptionChars rest (opts\<lparr>bWait := True\<rparr>)
      else (1, opts, [PrintError ''Invalid option'' 0]))"

text \<open>
  Line 255: an at-least-two-character string beginning with \<^verbatim>\<open>/\<close> (\<open>0x2F\<close>) or
  \<^verbatim>\<open>-\<close> (\<open>0x2D\<close>).
\<close>

definition isOption :: "wstring \<Rightarrow> bool" where
  "isOption arg =
     (case arg of
        c # c1 # _ \<Rightarrow> (c = 0x2F \<or> c = 0x2D) \<and> c1 \<noteq> 0
      | _ \<Rightarrow> False)"

definition cursorSize :: "wstring \<Rightarrow> wstring option \<Rightarrow> nat" where
  "cursorSize cmdLine p = (case p of None \<Rightarrow> Suc (length cmdLine) | Some q \<Rightarrow> length q)"

lemma length_skipProgramName: "length (skipProgramName b p) \<le> length p"
  by (induction b p rule: skipProgramName.induct) auto

lemma length_skipSpaces: "length (skipSpaces p) \<le> length p"
  by (induction p) auto

lemma length_argEnd: "length (argEnd p) \<le> length p"
  by (induction p) auto

lemma skipSpaces_not_blank: "skipSpaces p = c # q \<Longrightarrow> c \<noteq> 0x20 \<and> c \<noteq> 0x09"
  by (induction p) (auto split: if_splits)

lemma getArgument_decreases:
  assumes "getArgument cmdLine p = (p', Some r)"
  shows "length p' < cursorSize cmdLine p"
proof -
  define p1 where "p1 = initCursor cmdLine p"
  define pBegin where "pBegin = skipSpaces p1"
  from assms have ne: "\<not> atEnd pBegin" and p': "p' = argEnd pBegin"
    by (auto simp: getArgument_def Let_def p1_def pBegin_def split: if_splits)
  from ne obtain c q where cq: "pBegin = c # q" and c0: "c \<noteq> 0"
    by (cases pBegin) (auto simp: atEnd_def)
  from cq have "c \<noteq> 0x20 \<and> c \<noteq> 0x09"
    using skipSpaces_not_blank [of p1 c q] by (simp add: pBegin_def)
  with c0 cq p' have "p' = argEnd q" by simp
  then have "length p' < length pBegin"
    using length_argEnd [of q] cq by simp
  also have "length pBegin \<le> length p1"
    by (simp add: pBegin_def length_skipSpaces)
  also have "length p1 \<le> cursorSize cmdLine p"
    using length_skipProgramName [of False cmdLine]
    by (cases p) (auto simp: p1_def cursorSize_def initCursor_def)
  finally show ?thesis .
qed

lemma getArgument_cursor:
  "(p', Some r) = getArgument cmdLine p \<Longrightarrow> cursorSize cmdLine (Some p') < cursorSize cmdLine p"
  using getArgument_decreases [of cmdLine p p' r] by (simp add: cursorSize_def)

text \<open>
  The outer loop of \<^verbatim>\<open>wmain\<close> (lines 253-290) up to the label \<^verbatim>\<open>done_params\<close>. It
  returns \<^verbatim>\<open>errCode\<close>, the options, \<^verbatim>\<open>pwszCommandLine\<close> (\<open>None\<close> for \<^verbatim>\<open>NULL\<close>)
  and what was printed.
\<close>

function parseArguments ::
  "wstring \<Rightarrow> wstring option \<Rightarrow> options \<Rightarrow> cint \<times> options \<times> wstring option \<times> event list" where
  "parseArguments cmdLine p opts =
     (case getArgument cmdLine p of
        (p', None) \<Rightarrow> (0, opts, None, [])
      | (p', Some (pwszArgument, pwszArgumentIndex)) \<Rightarrow>
          if isOption pwszArgument then
            (case parseOptionChars (tl pwszArgument) opts of
               (errCode, opts', out) \<Rightarrow>
                 if errCode \<noteq> 0 then (errCode, opts', None, out)
                 else parseArguments cmdLine (Some p') opts')
          else (0, opts, Some pwszArgumentIndex, []))"
  by pat_completeness auto
termination
  by (relation "measure (\<lambda>(cmdLine, p, opts). cursorSize cmdLine p)")
    (auto intro: getArgument_cursor)

section \<open>Exit codes\<close>

text \<open>
  \<^verbatim>\<open>getExitCode\<close> (lines 216-224). The globals it reads, \<^verbatim>\<open>options\<close> and
  \<^verbatim>\<open>nChildExitCode\<close>, are arguments. \<^verbatim>\<open>int\<close> arithmetic is that of 32-bit words.
\<close>

definition getExitCode :: "options \<Rightarrow> cint \<Rightarrow> cint \<Rightarrow> cint" where
  "getExitCode opts nChildExitCode code =
     (let code1 = (if code = - 1 then 0 else code)
      in if bReturnCode opts then
           (if code1 \<noteq> 0 then - (EXIT_CODE_BASE + code1) else nChildExitCode)
         else code1)"

section \<open>The launch\<close>

text \<open>The macro \<^verbatim>\<open>wprintfv\<close> (lines 27-28) prints only when \<^verbatim>\<open>bVerbose\<close> is set.\<close>

definition wprintfv :: "options \<Rightarrow> string \<Rightarrow> event list" where
  "wprintfv opts msg = (if bVerbose opts then [Verbose msg] else [])"

text \<open>
  Lines 56-73 of \<^verbatim>\<open>createTrustedInstallerProcess\<close>: in seamless mode, take the token
  of the TrustedInstaller process, bind it to the console session and enable its
  privileges. It returns \<^verbatim>\<open>errCode\<close>, \<^verbatim>\<open>hTIToken\<close> and the calls made. The result
  of \<^verbatim>\<open>SetTokenInformation\<close> is dropped by the source; \<^verbatim>\<open>(DWORD) -1\<close> is the word
  \<open>- 1\<close>.
\<close>

definition deriveToken :: "os_env \<Rightarrow> options \<Rightarrow> handle \<Rightarrow> cint \<times> handle \<times> event list" where
  "deriveToken env opts hTIProcess =
     (if bSeamless opts then
        (let errCode = getTrustedInstallerToken_ret env;
             t1 = [GetTrustedInstallerToken hTIProcess errCode]
         in if errCode \<noteq> 0 then (errCode, hNULL, t1 @ [CloseHandle hTIProcess])
            else
              (let hTIToken = TIToken;
                   dwSessionId = activeConsoleSessionId env;
                   t2 = [WTSGetActiveConsoleSessionId dwSessionId];
                   t3 = (if dwSessionId \<noteq> - 1
                         then [SetTokenInformation hTIToken dwSessionId (setTokenInformation_ok env)]
                         else []);
                   t4 = [SetAllPrivileges hTIToken (bVerbose opts) (setAllPrivileges_ok env hTIToken)]
               in (0, hTIToken, t1 @ t2 @ t3 @ t4)))
      else (0, hNULL, []))"

text \<open>
  Lines 75-128: the startup information, the attribute list that names the
  TrustedInstaller process as parent (not in seamless mode), the creation flags, the call
  of \<^verbatim>\<open>CreateProcessAsUser\<close> and the release of what was prepared. The event of the call
  holds the token, the command line, \<^verbatim>\<open>dwCreationFlags\<close>, whether
  \<^verbatim>\<open>lpAttributeList\<close> is set, and the result. It returns \<^verbatim>\<open>bCreateResult\<close>,
  \<^verbatim>\<open>dwCreateError\<close> and the calls made. \<^verbatim>\<open>InitializeProcThreadAttributeList\<close> is called twice, for the size of the list
  (line 87) and for the list (line 90). The heap calls that hold the memory of the list
  and of the strings are not logged.
\<close>

definition createChild ::
  "os_env \<Rightarrow> options \<Rightarrow> handle \<Rightarrow> handle \<Rightarrow> wstring \<Rightarrow> bool \<times> dword \<times> event list" where
  "createChild env opts hTIProcess hTIToken pwszImageName =
     (let t1 = (if \<not> bSeamless opts
                then [InitializeProcThreadAttributeList, InitializeProcThreadAttributeList,
                      UpdateProcThreadAttribute hTIProcess]
                else []);
          lpAttributeList = (\<not> bSeamless opts);
          dwCreationFlags = (if \<not> bSeamless opts
                             then CREATE_SUSPENDED OR EXTENDED_STARTUPINFO_PRESENT OR CREATE_NEW_CONSOLE
                             else 0);
          t2 = wprintfv opts ''[D] Creating specified process'';
          bCreateResult = createProcessAsUser_ok env;
          t3 = [CreateProcessAsUser hTIToken pwszImageName dwCreationFlags lpAttributeList
                  bCreateResult];
          dwCreateError = (if bCreateResult then 0 else lastError env);
          t4 = (if bSeamless opts then [CloseHandle hTIToken] else [DeleteProcThreadAttributeList]);
          t5 = [CloseHandle hTIProcess]
      in (bCreateResult, dwCreateError, t1 @ t2 @ t3 @ t4 @ t5))"

text \<open>
  Lines 131-158, after a successful creation: customise the token of the suspended child
  and resume it (not in seamless mode), wait for it and read its exit code (with
  \<^verbatim>\<open>bWait\<close>), close its handles. \<^verbatim>\<open>hProcessToken\<close> stays \<^verbatim>\<open>NULL\<close> when
  \<^verbatim>\<open>OpenProcessToken\<close> fails; the source does not test it. It returns
  \<^verbatim>\<open>nChildExitCode\<close> and the calls made.
\<close>

definition superviseChild :: "os_env \<Rightarrow> options \<Rightarrow> cint \<Rightarrow> cint \<times> event list" where
  "superviseChild env opts nChildExitCode =
     (let t1 = (if \<not> bSeamless opts then
                  (let hProcessToken = (if openProcessToken_ok env then ChildToken else hNULL)
                   in [OpenProcessToken ChildProcess (openProcessToken_ok env),
                       SetAllPrivileges hProcessToken (bVerbose opts)
                         (setAllPrivileges_ok env hProcessToken),
                       CloseHandle hProcessToken,
                       ResumeThread ChildThread])
                else []);
          t2 = wprintfv opts ''[D] Created process ID'';
          t3 = (if bWait opts then
                  wprintfv opts ''[D] Waiting for process to exit''
                  @ [WaitForSingleObject ChildProcess]
                  @ wprintfv opts ''[D] Process exited''
                  @ [GetExitCodeProcess ChildProcess (getExitCodeProcess_ok env) (childExitCode env)]
                  @ (if getExitCodeProcess_ok env
                     then wprintfv opts ''[D] Process exit code'' else [])
                else []);
          n = (if bWait opts \<and> getExitCodeProcess_ok env then childExitCode env
               else nChildExitCode);
          t4 = [CloseHandle ChildProcess, CloseHandle ChildThread]
      in (n, t1 @ t2 @ t3 @ t4))"

text \<open>
  \<^verbatim>\<open>createTrustedInstallerProcess\<close> (lines 47-167), put together from its three
  parts. It returns \<^verbatim>\<open>errCode\<close>, \<^verbatim>\<open>nChildExitCode\<close> and the calls made.
\<close>

definition createTrustedInstallerProcess ::
  "os_env \<Rightarrow> options \<Rightarrow> cint \<Rightarrow> wstring \<Rightarrow> cint \<times> cint \<times> event list" where
  "createTrustedInstallerProcess env opts nChildExitCode pwszImageName =
     (let errCode = getTrustedInstallerProcess_ret env;
          t1 = [GetTrustedInstallerProcess errCode]
      in if errCode \<noteq> 0 then (errCode, nChildExitCode, t1)
         else
           (let hTIProcess = TIProcess
            in case deriveToken env opts hTIProcess of
                 (errCode2, hTIToken, t2) \<Rightarrow>
                   if errCode2 \<noteq> 0 then (errCode2, nChildExitCode, t1 @ t2)
                   else
                     (case createChild env opts hTIProcess hTIToken pwszImageName of
                        (bCreateResult, dwCreateError, t3) \<Rightarrow>
                          if bCreateResult then
                            (case superviseChild env opts nChildExitCode of
                               (n, t4) \<Rightarrow> (0, n, t1 @ t2 @ t3 @ t4))
                          else
                            (4, nChildExitCode,
                             t1 @ t2 @ t3 @ [PrintError ''Process creation failed'' dwCreateError]))))"

section \<open>The program\<close>

text \<open>The length \<^verbatim>\<open>wcslen\<close> counts: a copy of a string stops at its first 0.\<close>

definition cstr :: "wstring \<Rightarrow> wstring" where
  "cstr p = takeWhile (\<lambda>c. c \<noteq> 0) p"

text \<open>
  Lines 312-314 of \<^verbatim>\<open>wmain\<close>: the three steps of the elevation, each one run only
  when the ones before returned 0.
\<close>

definition elevate :: "os_env \<Rightarrow> options \<Rightarrow> wstring \<Rightarrow> cint \<times> cint \<times> event list" where
  "elevate env opts pwszImageName =
     (let errCode1 = acquireSeDebugPrivilege_ret env;
          t1 = [AcquireSeDebugPrivilege errCode1];
          (errCode2, t2) =
            (if errCode1 = 0 \<and> bSeamless opts
             then (createSystemContext_ret env, [CreateSystemContext (createSystemContext_ret env)])
             else (errCode1, []))
      in if errCode2 = 0 then
           (case createTrustedInstallerProcess env opts 0 pwszImageName of
              (errCode3, n, t3) \<Rightarrow> (errCode3, n, t1 @ t2 @ t3))
         else (errCode2, 0, t1 @ t2))"

text \<open>
  \<^verbatim>\<open>wmain\<close> (lines 240-319) up to its \<^verbatim>\<open>return\<close> statements: every one of them is
  \<^verbatim>\<open>return getExitCode( code )\<close>, and \<open>run\<close> gives that \<open>code\<close>, the options,
  \<^verbatim>\<open>nChildExitCode\<close> and everything the program called or printed.
\<close>

definition run :: "os_env \<Rightarrow> wstring \<Rightarrow> cint \<times> options \<times> cint \<times> event list" where
  "run env cmdLine =
     (case parseArguments cmdLine None options0 of
        (errCode, opts, pwszCommandLine, out) \<Rightarrow>
          if errCode \<noteq> 0 then (errCode, opts, 0, out)
          else if (bReturnCode opts \<or> bSeamless opts) \<and> \<not> bWait opts then
            (1, opts, 0, out @ [PrintError ''/r or /s option requires /w'' 0])
          else
            (let pwszCommandLine1 =
                   (case pwszCommandLine of None \<Rightarrow> L ''cmd.exe'' | Some c \<Rightarrow> c);
                 t1 = wprintfv opts ''[D] Your commandline is'';
                 pwszImageName = cstr pwszCommandLine1
             in case elevate env opts pwszImageName of
                  (errCode1, n, t2) \<Rightarrow> (errCode1, opts, n, out @ t1 @ t2)))"

text \<open>\<^verbatim>\<open>wmain\<close>: the exit code of the program and its calls.\<close>

definition wmain :: "os_env \<Rightarrow> wstring \<Rightarrow> cint \<times> event list" where
  "wmain env cmdLine =
     (case run env cmdLine of
        (code, opts, nChildExitCode, t) \<Rightarrow> (getExitCode opts nChildExitCode code, t))"

section \<open>What the claims speak of\<close>

text \<open>Blanks separate arguments; an argument ends at a blank or at the end of the line.\<close>

definition blanks :: "wstring \<Rightarrow> bool" where
  "blanks bs = list_all (\<lambda>c. c = 0x20 \<or> c = 0x09) bs"

definition stops :: "wstring \<Rightarrow> bool" where
  "stops rest = (case rest of [] \<Rightarrow> True | c # _ \<Rightarrow> c = 0 \<or> c = 0x20 \<or> c = 0x09)"

text \<open>
  An option argument in the line: blanks before it, the marker \<^verbatim>\<open>/\<close> or \<^verbatim>\<open>-\<close>, and
  one letter or more, each of them one of h, r, s, v, w.
\<close>

type_synonym token = "wstring \<times> wchar \<times> wstring"

definition tokenText :: "token \<Rightarrow> wstring" where
  "tokenText t = (case t of (bs, m, ls) \<Rightarrow> bs @ m # ls)"

definition tokenLetters :: "token \<Rightarrow> wstring" where
  "tokenLetters t = (case t of (bs, m, ls) \<Rightarrow> ls)"

definition recognisedToken :: "token \<Rightarrow> bool" where
  "recognisedToken t =
     (case t of (bs, m, ls) \<Rightarrow>
        bs \<noteq> [] \<and> blanks bs \<and> (m = 0x2F \<or> m = 0x2D) \<and> ls \<noteq> [] \<and>
        list_all (\<lambda>c. c = 0x68 \<or> c = 0x72 \<or> c = 0x73 \<or> c = 0x76 \<or> c = 0x77) ls)"

text \<open>The letters that stand before the first h.\<close>

definition untilHelp :: "wstring \<Rightarrow> wstring" where
  "untilHelp ls = takeWhile (\<lambda>c. c \<noteq> 0x68) ls"

text \<open>The options with the flags of the letters \<open>ls\<close> added, whatever their order.\<close>

definition addFlags :: "wstring \<Rightarrow> options \<Rightarrow> options" where
  "addFlags ls opts =
     \<lparr>bReturnCode = (bReturnCode opts \<or> 0x72 \<in> set ls),
      bSeamless = (bSeamless opts \<or> 0x73 \<in> set ls),
      bVerbose = (bVerbose opts \<or> 0x76 \<in> set ls),
      bWait = (bWait opts \<or> 0x77 \<in> set ls)\<rparr>"

text \<open>Console output, as opposed to a call that touches privileges, tokens or processes.\<close>

fun isOutput :: "event \<Rightarrow> bool" where
  "isOutput PrintHelp = True"
| "isOutput (PrintError msg code) = True"
| "isOutput (Verbose msg) = True"
| "isOutput e = False"

text \<open>The creation flags of every \<^verbatim>\<open>CreateProcessAsUser\<close> call of a trace satisfy \<open>P\<close>.\<close>

fun creationFlags :: "(dword \<Rightarrow> bool) \<Rightarrow> event list \<Rightarrow> bool" where
  "creationFlags P [] = True"
| "creationFlags P (CreateProcessAsUser tok cmd fl al ok # es) = (P fl \<and> creationFlags P es)"
| "creationFlags P (e # es) = creationFlags P es"

text \<open>
  No thread is resumed before \<^verbatim>\<open>setAllPrivileges\<close> was called on what
  \<^verbatim>\<open>OpenProcessToken\<close> gave for the child process. \<open>tok\<close> is that handle once the token
  was asked for, \<open>attempted\<close> says that the privileges call on it was made.
\<close>

fun resumeOrder :: "handle option \<Rightarrow> bool \<Rightarrow> event list \<Rightarrow> bool" where
  "resumeOrder tok attempted [] = True"
| "resumeOrder tok attempted (OpenProcessToken p ok # es) =
     resumeOrder (if p = ChildProcess then Some (if ok then ChildToken else hNULL) else tok)
       attempted es"
| "resumeOrder tok attempted (SetAllPrivileges h v ok # es) =
     resumeOrder tok (attempted \<or> tok = Some h) es"
| "resumeOrder tok attempted (ResumeThread t # es) = (attempted \<and> resumeOrder tok attempted es)"
| "resumeOrder tok attempted (e # es) = resumeOrder tok attempted es"




text \<open>
  The handles a trace leaves open, from the handles \<open>hs\<close> open before it: a call that
  succeeds hands its handles to the program, \<^verbatim>\<open>CloseHandle\<close> releases one.
\<close>

fun opened :: "event \<Rightarrow> handle list" where
  "opened (GetTrustedInstallerProcess e) = (if e = 0 then [TIProcess] else [])"
| "opened (GetTrustedInstallerToken h e) = (if e = 0 then [TIToken] else [])"
| "opened (CreateProcessAsUser tok cmd fl al ok) = (if ok then [ChildProcess, ChildThread] else [])"
| "opened (OpenProcessToken p ok) = (if ok then [ChildToken] else [])"
| "opened e = []"

fun openHandles :: "event list \<Rightarrow> handle list \<Rightarrow> handle list" where
  "openHandles [] hs = hs"
| "openHandles (CloseHandle h # es) hs = openHandles es (removeAll h hs)"
| "openHandles (e # es) hs = openHandles es (hs @ opened e)"

text \<open>A trace without its \<^verbatim>\<open>SetTokenInformation\<close> calls.\<close>

fun isSetTokenInformation :: "event \<Rightarrow> bool" where
  "isSetTokenInformation (SetTokenInformation h sid ok) = True"
| "isSetTokenInformation e = False"

definition otherCalls :: "event list \<Rightarrow> event list" where
  "otherCalls t = filter (\<lambda>e. \<not> isSetTokenInformation e) t"

text \<open>The error codes the header comment of superUser.c lists (lines 31-36).\<close>

definition listedCode :: "cint \<Rightarrow> bool" where
  "listedCode c = (c = 1 \<or> c = 2 \<or> c = 3 \<or> c = 4 \<or> c = 5)"

text \<open>
  A run in which every call whose result the program tests succeeds and the child exits
  with status 7; the two calls whose result it drops, \<^verbatim>\<open>SetTokenInformation\<close> and
  \<^verbatim>\<open>setAllPrivileges\<close>, fail.
\<close>

definition successEnv :: os_env where
  "successEnv =
     \<lparr>acquireSeDebugPrivilege_ret = 0, createSystemContext_ret = 0,
      getTrustedInstallerProcess_ret = 0, getTrustedInstallerToken_ret = 0,
      activeConsoleSessionId = 1, setTokenInformation_ok = False,
      setAllPrivileges_ok = (\<lambda>h. False), createProcessAsUser_ok = True, lastError = 0,
      openProcessToken_ok = True, getExitCodeProcess_ok = True, childExitCode = 7\<rparr>"

section \<open>Facts about the parser\<close>

declare parseArguments.simps [simp del]

lemma skipSpaces_blanks: "blanks bs \<Longrightarrow> skipSpaces (bs @ p) = skipSpaces p"
  by (induction bs) (auto simp: blanks_def)

lemma skipSpaces_stay: "c \<noteq> 0x20 \<Longrightarrow> c \<noteq> 0x09 \<Longrightarrow> skipSpaces (c # p) = c # p"
  by simp

lemma argEnd_stops: "stops rest \<Longrightarrow> argEnd rest = rest"
  by (cases rest) (auto simp: stops_def)

lemma argEnd_word:
  "list_all (\<lambda>c. c \<noteq> 0 \<and> c \<noteq> 0x20 \<and> c \<noteq> 0x09) w \<Longrightarrow> stops rest \<Longrightarrow> argEnd (w @ rest) = rest"
  by (induction w) (auto simp: argEnd_stops)

lemma getArgument_word:
  assumes cur: "initCursor cmdLine p = bs @ c # w @ rest"
    and bs: "blanks bs"
    and c: "c \<noteq> 0" "c \<noteq> 0x20" "c \<noteq> 0x09"
    and w: "list_all (\<lambda>c. c \<noteq> 0 \<and> c \<noteq> 0x20 \<and> c \<noteq> 0x09) w"
    and rest: "stops rest"
  shows "getArgument cmdLine p = (rest, Some (c # w, c # w @ rest))"
proof -
  have b: "skipSpaces (initCursor cmdLine p) = c # w @ rest"
    using cur bs c by (simp add: skipSpaces_blanks)
  have e: "argEnd (c # w @ rest) = rest"
    using c w rest by (simp add: argEnd_word)
  have e': "argEnd (w @ rest) = rest"
    using w rest by (rule argEnd_word)
  show ?thesis
    using c by (simp add: getArgument_def b e' atEnd_def Let_def)
qed

lemma getArgument_none:
  assumes "initCursor cmdLine p = bs" "blanks bs"
  shows "getArgument cmdLine p = ([], None)"
proof -
  have "skipSpaces (bs @ []) = skipSpaces []" using assms(2) by (rule skipSpaces_blanks)
  then show ?thesis using assms by (simp add: getArgument_def atEnd_def Let_def)
qed

lemma addFlags_append: "addFlags (xs @ ys) opts = addFlags ys (addFlags xs opts)"
  by (auto simp: addFlags_def)

lemma tokenText_simp: "tokenText (bs, m, ls) = bs @ m # ls"
  by (simp add: tokenText_def)

lemma tokenLetters_simp: "tokenLetters (bs, m, ls) = ls"
  by (simp add: tokenLetters_def)

lemma addFlags_Nil: "addFlags [] opts = opts"
  by (simp add: addFlags_def)

lemma parseOptionChars_recognised:
  "list_all (\<lambda>c. c = 0x68 \<or> c = 0x72 \<or> c = 0x73 \<or> c = 0x76 \<or> c = 0x77) ls \<Longrightarrow>
   parseOptionChars ls opts =
     (if 0x68 \<in> set ls then - 1 else 0, addFlags (untilHelp ls) opts,
      if 0x68 \<in> set ls then [PrintHelp] else [])"
proof (induction ls arbitrary: opts)
  case Nil
  show ?case by (simp add: addFlags_def untilHelp_def)
next
  case (Cons c ls)
  then show ?case by (auto simp: addFlags_def untilHelp_def)
qed

lemma untilHelp_found: "0x68 \<in> set xs \<Longrightarrow> untilHelp (xs @ ys) = untilHelp xs"
  by (simp add: untilHelp_def takeWhile_append1)

lemma untilHelp_pass: "0x68 \<notin> set xs \<Longrightarrow> untilHelp (xs @ ys) = xs @ untilHelp ys"
  by (auto simp: untilHelp_def intro: takeWhile_append2)

lemma argEnd_plain:
  "list_all (\<lambda>c. c \<noteq> 0 \<and> c \<noteq> 0x20 \<and> c \<noteq> 0x09) w \<Longrightarrow> argEnd (w @ rest) = argEnd rest"
  by (induction w) auto

lemma getArgument_prefix:
  assumes cur: "initCursor cmdLine p = bs @ c # w @ rest"
    and bs: "blanks bs"
    and c: "c \<noteq> 0" "c \<noteq> 0x20" "c \<noteq> 0x09"
    and w: "list_all (\<lambda>c. c \<noteq> 0 \<and> c \<noteq> 0x20 \<and> c \<noteq> 0x09) w"
  shows "getArgument cmdLine p =
           (argEnd rest,
            Some (c # w @ take (length rest - length (argEnd rest)) rest, c # w @ rest))"
proof -
  have b: "skipSpaces (initCursor cmdLine p) = c # w @ rest"
    using cur bs c by (simp add: skipSpaces_blanks)
  have e: "argEnd (w @ rest) = argEnd rest"
    using w by (rule argEnd_plain)
  have l: "length (argEnd rest) \<le> length rest"
    by (rule length_argEnd)
  have "Suc (length w + length rest) - length (argEnd rest)
          = Suc (length w) + (length rest - length (argEnd rest))"
    using l by simp
  then show ?thesis
    using c by (simp add: getArgument_def b e atEnd_def Let_def)
qed

lemma parseOptionChars_unknown:
  assumes "list_all (\<lambda>c. c = 0x68 \<or> c = 0x72 \<or> c = 0x73 \<or> c = 0x76 \<or> c = 0x77) ls"
    and "c \<noteq> 0" "c \<noteq> 0x68" "c \<noteq> 0x72" "c \<noteq> 0x73" "c \<noteq> 0x76" "c \<noteq> 0x77"
  shows "parseOptionChars (ls @ c # xs) opts =
           (if 0x68 \<in> set ls then - 1 else 1, addFlags (untilHelp ls) opts,
            if 0x68 \<in> set ls then [PrintHelp] else [PrintError ''Invalid option'' 0])"
  using assms
proof (induction ls arbitrary: opts)
  case Nil
  then show ?case by (simp add: addFlags_def untilHelp_def)
next
  case (Cons l ls)
  then show ?case by (auto simp: addFlags_def untilHelp_def)
qed

lemma parseOptionChars_code:
  "parseOptionChars ls opts = (e, opts', out) \<Longrightarrow>
     (e = 0 \<and> out = []) \<or> (e = 1 \<and> out = [PrintError ''Invalid option'' 0]) \<or>
     (e = - 1 \<and> out = [PrintHelp])"
  by (induction ls arbitrary: opts) (auto split: if_splits)

lemma parseArguments_code:
  "parseArguments cmdLine p opts = (e, opts', cmd, out) \<Longrightarrow>
     (e = 0 \<and> out = []) \<or>
     (e = 1 \<and> out = [PrintError ''Invalid option'' 0] \<and> cmd = None) \<or>
     (e = - 1 \<and> out = [PrintHelp] \<and> cmd = None)"
proof (induction cmdLine p opts rule: parseArguments.induct)
  case (1 cmdLine p opts)
  show ?case
  proof (cases "getArgument cmdLine p")
    case (Pair p' r)
    show ?thesis
    proof (cases r)
      case None
      with Pair "1.prems" show ?thesis
        by (subst (asm) parseArguments.simps) simp
    next
      case (Some a)
      obtain arg idx where a: "a = (arg, idx)" by (cases a)
      show ?thesis
      proof (cases "isOption arg")
        case False
        with Pair Some a "1.prems" show ?thesis
          by (subst (asm) parseArguments.simps) simp
      next
        case True
        obtain e1 o1 out1 where po: "parseOptionChars (tl arg) opts = (e1, o1, out1)"
          by (cases "parseOptionChars (tl arg) opts")
        show ?thesis
        proof (cases "e1 = 0")
          case e0: True
          have "parseArguments cmdLine (Some p') o1 = (e, opts', cmd, out)"
            using "1.prems" Pair Some a True po e0
            by (subst (asm) parseArguments.simps) simp
          then show ?thesis
            using "1.IH" [OF Pair [symmetric] _ _ True po [symmetric]] Some a e0
            by simp
        next
          case False
          have "(e, opts', cmd, out) = (e1, o1, None, out1)"
            using "1.prems" Pair Some a True po False
            by (subst (asm) parseArguments.simps) simp
          with parseOptionChars_code [OF po] False show ?thesis by auto
        qed
      qed
    qed
  qed
qed

lemmas eval_parse =
  L_def options0_def initCursor_def getArgument_def atEnd_def isOption_def Let_def
  parseArguments.simps

section \<open>Option letters\<close>

text \<open>
  Claim C4, as amended. The option letters are matched as they are written: the
  \<^verbatim>\<open>switch\<close> of lines 260-281 knows the lower case letters h, r, s, v, w only. Take an
  option argument in which an upper case H, R, S, V or W stands right behind the marker
  or behind lower case letters h, r, s, v, w. When no h is among these letters, the
  upper case letter is an invalid option: parsing stops with error code 1, the message
  "Invalid option" is printed, and the flags of the letters before it have taken effect.
  When an h is among them, parsing has ended at the first h with the help and the code
  \<open>- 1\<close>, the flags of the letters before that h have taken effect, and the upper case
  letter is never read. In neither case does the upper case letter set a flag.
  \<open>0x48\<close>, \<open>0x52\<close>, \<open>0x53\<close>, \<open>0x56\<close>, \<open>0x57\<close> are H, R, S, V, W.
\<close>

theorem uppercase_flag_rejected:
  assumes cur: "initCursor cmdLine p = bs @ m # ls @ c # rest"
    and bs: "blanks bs"
    and m: "m = 0x2F \<or> m = 0x2D"
    and ls: "list_all (\<lambda>c. c = 0x68 \<or> c = 0x72 \<or> c = 0x73 \<or> c = 0x76 \<or> c = 0x77) ls"
    and c: "c = 0x48 \<or> c = 0x52 \<or> c = 0x53 \<or> c = 0x56 \<or> c = 0x57"
  shows "parseArguments cmdLine p opts =
           (if 0x68 \<in> set ls then - 1 else 1,
            addFlags (untilHelp ls) opts,
            None,
            if 0x68 \<in> set ls then [PrintHelp] else [PrintError ''Invalid option'' 0])"
proof -
  define tail where "tail = take (length rest - length (argEnd rest)) rest"
  have plain: "list_all (\<lambda>c. c \<noteq> 0 \<and> c \<noteq> 0x20 \<and> c \<noteq> 0x09) (ls @ [c])"
    using ls c by (induction ls) auto
  have cur': "initCursor cmdLine p = bs @ m # (ls @ [c]) @ rest"
    using cur by simp
  have ga: "getArgument cmdLine p = (argEnd rest, Some (m # ls @ c # tail, m # ls @ c # rest))"
    unfolding tail_def using getArgument_prefix [OF cur' bs _ _ _ plain] m by auto
  have io: "isOption (m # ls @ c # tail)"
    using m plain by (cases ls) (auto simp: isOption_def)
  have po: "parseOptionChars (ls @ c # tail) opts =
      (if 0x68 \<in> set ls then - 1 else 1, addFlags (untilHelp ls) opts,
       if 0x68 \<in> set ls then [PrintHelp] else [PrintError ''Invalid option'' 0])"
    using c by (intro parseOptionChars_unknown [OF ls]) auto
  show ?thesis
    by (subst parseArguments.simps) (simp add: ga io po)
qed

text \<open>
  \<^verbatim>\<open>superUser.exe /wR notepad.exe\<close>: w is set, R is refused. \<^verbatim>\<open>superUser.exe /hW\<close>:
  the help is printed, W is not read.
\<close>

theorem uppercase_flag_rejected_witness:
  "parseArguments (L ''superUser.exe /wR notepad.exe'') None options0 =
     (1, \<lparr>bReturnCode = False, bSeamless = False, bVerbose = False, bWait = True\<rparr>, None,
      [PrintError ''Invalid option'' 0]) \<and>
   parseArguments (L ''superUser.exe /hW'') None options0 =
     (- 1, options0, None, [PrintHelp])"
proof -
  have a: "parseArguments (L ''superUser.exe /wR notepad.exe'') None options0 =
      (if 0x68 \<in> set [0x77 :: wchar] then - 1 else 1,
       addFlags (untilHelp [0x77]) options0, None,
       if 0x68 \<in> set [0x77 :: wchar] then [PrintHelp] else [PrintError ''Invalid option'' 0])"
    by (rule uppercase_flag_rejected [where bs = "[0x20]" and m = "0x2F" and c = "0x52"
          and rest = "L '' notepad.exe''"])
      (simp_all add: L_def initCursor_def blanks_def)
  have b: "parseArguments (L ''superUser.exe /hW'') None options0 =
      (if 0x68 \<in> set [0x68 :: wchar] then - 1 else 1,
       addFlags (untilHelp [0x68]) options0, None,
       if 0x68 \<in> set [0x68 :: wchar] then [PrintHelp] else [PrintError ''Invalid option'' 0])"
    by (rule uppercase_flag_rejected [where bs = "[0x20]" and m = "0x2F" and c = "0x57"
          and rest = "[]"])
      (simp_all add: L_def initCursor_def blanks_def)
  from a b show ?thesis
    by (simp add: addFlags_def options0_def untilHelp_def)
qed

text \<open>
  Claim C4 as it was stated fails: \<^verbatim>\<open>/W\<close> is refused with error code 1, \<^verbatim>\<open>/w\<close> is
  accepted and sets \<^verbatim>\<open>bWait\<close>.
\<close>

theorem uppercase_flag_counterexample:
  "parseArguments (L ''superUser.exe /W'') None options0 =
     (1, options0, None, [PrintError ''Invalid option'' 0]) \<and>
   parseArguments (L ''superUser.exe /w'') None options0 =
     (0, options0\<lparr>bWait := True\<rparr>, None, [])"
  by (simp add: eval_parse)

section \<open>Grouping of options\<close>

text \<open>
  Claim C5, as amended. For every sequence of option arguments made of the letters
  h, r, s, v, w only, each argument behind blanks and a marker \<^verbatim>\<open>/\<close> or \<^verbatim>\<open>-\<close>, in any
  grouping and any order, parsing finds no invalid option and no command, and the options
  are those from before with the flag of every letter added that stands before the first
  h, that is of every letter when there is no h. Without an h the error code is 0 and
  nothing is printed; with an h parsing ends at it with the help and the code \<open>- 1\<close>. The
  result depends on the letters only through \<open>addFlags\<close>, which asks which letters
  occur, so \<^verbatim>\<open>/wrs\<close> and \<^verbatim>\<open>/w /r /s\<close> give the same options.
\<close>

theorem flags_union_any_grouping:
  assumes "list_all recognisedToken toks" "blanks trail"
    "initCursor cmdLine p = concat (map tokenText toks) @ trail"
  shows "parseArguments cmdLine p opts =
           (if 0x68 \<in> set (concat (map tokenLetters toks)) then - 1 else 0,
            addFlags (untilHelp (concat (map tokenLetters toks))) opts,
            None,
            if 0x68 \<in> set (concat (map tokenLetters toks)) then [PrintHelp] else [])"
  using assms
proof (induction toks arbitrary: p opts)
  case Nil
  then have "getArgument cmdLine p = ([], None)"
    by (simp add: getArgument_none)
  then show ?case
    by (subst parseArguments.simps) (simp add: addFlags_Nil untilHelp_def)
next
  case (Cons t toks)
  obtain bs m ls where t: "t = (bs, m, ls)" by (cases t)
  define rest where "rest = concat (map tokenText toks) @ trail"
  define others where "others = concat (map tokenLetters toks)"
  from Cons.prems t have ft: "bs \<noteq> []" "blanks bs" "m = 0x2F \<or> m = 0x2D" "ls \<noteq> []"
    "list_all (\<lambda>c. c = 0x68 \<or> c = 0x72 \<or> c = 0x73 \<or> c = 0x76 \<or> c = 0x77) ls"
    by (auto simp: recognisedToken_def)
  have st: "stops rest"
  proof (cases toks)
    case Nil
    with Cons.prems(2) show ?thesis
      by (cases trail) (auto simp: rest_def stops_def blanks_def)
  next
    case (Cons t' toks')
    obtain bs' m' ls' where t': "t' = (bs', m', ls')" by (cases t')
    with Cons.prems(1) Cons have "bs' \<noteq> []" "blanks bs'"
      by (auto simp: recognisedToken_def)
    with Cons t' show ?thesis
      by (cases bs') (auto simp: rest_def stops_def blanks_def tokenText_simp)
  qed
  have plain: "list_all (\<lambda>c. c \<noteq> 0 \<and> c \<noteq> 0x20 \<and> c \<noteq> 0x09) ls"
    using ft(5) by (induction ls) auto
  have cur: "initCursor cmdLine p = bs @ m # ls @ rest"
    using Cons.prems(3) t by (simp add: rest_def tokenText_simp)
  have ga: "getArgument cmdLine p = (rest, Some (m # ls, m # ls @ rest))"
    using getArgument_word [OF cur ft(2) _ _ _ plain st] ft(3) by auto
  obtain l ls' where ls: "ls = l # ls'" using ft(4) by (cases ls) auto
  with plain have "l \<noteq> 0" by simp
  with ls ft(3) have io: "isOption (m # ls)" by (simp add: isOption_def)
  note po = parseOptionChars_recognised [OF ft(5), of opts]
  have letters: "concat (map tokenLetters (t # toks)) = ls @ others"
    by (simp add: t tokenLetters_simp others_def)
  show ?case
  proof (cases "0x68 \<in> set ls")
    case True
    then show ?thesis
      unfolding letters
      by (subst parseArguments.simps) (simp add: ga io po untilHelp_found)
  next
    case False
    have IH: "parseArguments cmdLine (Some rest) (addFlags ls opts) =
        (if 0x68 \<in> set others then - 1 else 0,
         addFlags (untilHelp others) (addFlags ls opts), None,
         if 0x68 \<in> set others then [PrintHelp] else [])"
      unfolding others_def using Cons.prems(1,2)
      by (intro Cons.IH) (simp_all add: initCursor_def rest_def)
    have uh: "untilHelp ls = ls"
      using False untilHelp_pass [of ls "[]"] by (simp add: untilHelp_def)
    from False show ?thesis
      unfolding letters
      by (subst parseArguments.simps)
        (simp add: ga io po IH uh untilHelp_pass addFlags_append)
  qed
qed

text \<open>
  \<^verbatim>\<open>/wrs\<close> and \<^verbatim>\<open>/w -r  /s \<close> give the same options; in \<^verbatim>\<open>/w /hv\<close> the w is set
  and the v behind the h is not.
\<close>

theorem flags_union_any_grouping_witness:
  "parseArguments (L ''superUser.exe /wrs'') None options0 =
     (0, \<lparr>bReturnCode = True, bSeamless = True, bVerbose = False, bWait = True\<rparr>, None, []) \<and>
   parseArguments (L ''superUser.exe /w -r  /s '') None options0 =
     (0, \<lparr>bReturnCode = True, bSeamless = True, bVerbose = False, bWait = True\<rparr>, None, []) \<and>
   parseArguments (L ''superUser.exe /w /hv'') None options0 =
     (- 1, \<lparr>bReturnCode = False, bSeamless = False, bVerbose = False, bWait = True\<rparr>, None,
      [PrintHelp])"
proof -
  let ?a = "[([0x20], 0x2F, [0x77, 0x72, 0x73])] :: token list"
  let ?b = "[([0x20], 0x2F, [0x77]), ([0x20], 0x2D, [0x72]), ([0x20, 0x20], 0x2F, [0x73])]
    :: token list"
  let ?c = "[([0x20], 0x2F, [0x77]), ([0x20], 0x2F, [0x68, 0x76])] :: token list"
  have a: "parseArguments (L ''superUser.exe /wrs'') None options0 =
      (if 0x68 \<in> set (concat (map tokenLetters ?a)) then - 1 else 0,
       addFlags (untilHelp (concat (map tokenLetters ?a))) options0, None,
       if 0x68 \<in> set (concat (map tokenLetters ?a)) then [PrintHelp] else [])"
    by (rule flags_union_any_grouping [where trail = "[]"])
      (simp_all add: L_def initCursor_def blanks_def recognisedToken_def tokenText_simp)
  have b: "parseArguments (L ''superUser.exe /w -r  /s '') None options0 =
      (if 0x68 \<in> set (concat (map tokenLetters ?b)) then - 1 else 0,
       addFlags (untilHelp (concat (map tokenLetters ?b))) options0, None,
       if 0x68 \<in> set (concat (map tokenLetters ?b)) then [PrintHelp] else [])"
    by (rule flags_union_any_grouping [where trail = "[0x20]"])
      (simp_all add: L_def initCursor_def blanks_def recognisedToken_def tokenText_simp)
  have c: "parseArguments (L ''superUser.exe /w /hv'') None options0 =
      (if 0x68 \<in> set (concat (map tokenLetters ?c)) then - 1 else 0,
       addFlags (untilHelp (concat (map tokenLetters ?c))) options0, None,
       if 0x68 \<in> set (concat (map tokenLetters ?c)) then [PrintHelp] else [])"
    by (rule flags_union_any_grouping [where trail = "[]"])
      (simp_all add: L_def initCursor_def blanks_def recognisedToken_def tokenText_simp)
  from a b c show ?thesis
    by (simp add: addFlags_def options0_def tokenLetters_simp untilHelp_def)
qed

text \<open>
  Claim C5 as it was stated fails for the letter h, which is a recognised flag too: the
  \<^verbatim>\<open>goto done_params\<close> of line 264 leaves the loop at once, so in \<^verbatim>\<open>/hw\<close> the w
  behind it is never read and \<^verbatim>\<open>bWait\<close> stays unset, while \<^verbatim>\<open>/w\<close> sets it.
\<close>

theorem help_flag_counterexample:
  "parseArguments (L ''superUser.exe /hw'') None options0 = (- 1, options0, None, [PrintHelp]) \<and>
   \<not> bWait options0 \<and>
   bWait (fst (snd (parseArguments (L ''superUser.exe /w'') None options0)))"
  by (simp add: eval_parse)


section \<open>A bare marker\<close>

text \<open>
  Claim C9. An argument that is only \<^verbatim>\<open>/\<close> or only \<^verbatim>\<open>-\<close>, with a blank or the end
  of the line behind it, fails the test of line 255 for an option: parsing ends there with
  error code 0, the options as they were and nothing printed, and the command line is
  the rest of the line from the marker on. When it is the first argument, the program
  goes on to the elevation with that text as the command to run.
\<close>

theorem bare_marker_is_command:
  assumes cur: "initCursor cmdLine p = bs @ m # rest"
    and bs: "blanks bs"
    and m: "m = 0x2F \<or> m = 0x2D"
    and rest: "stops rest"
  shows "parseArguments cmdLine p opts = (0, opts, Some (m # rest), []) \<and>
         (p = None \<longrightarrow>
            run env cmdLine =
              (case elevate env options0 (m # cstr rest) of
                 (errCode, n, t) \<Rightarrow> (errCode, options0, n, t)))"
proof -
  have cur': "initCursor cmdLine p = bs @ m # [] @ rest"
    using cur by simp
  have ga: "getArgument cmdLine p = (rest, Some ([m], m # rest))"
    using getArgument_word [OF cur' bs _ _ _ _ rest] m by auto
  have io: "\<not> isOption [m]"
    by (simp add: isOption_def)
  have pa: "parseArguments cmdLine p opts = (0, opts, Some (m # rest), [])" for opts
    by (subst parseArguments.simps) (simp add: ga io)
  have cs: "cstr (m # rest) = m # cstr rest"
    using m by (auto simp: cstr_def)
  have "run env cmdLine =
      (case elevate env options0 (m # cstr rest) of
         (errCode, n, t) \<Rightarrow> (errCode, options0, n, t))" if "p = None"
    using pa [of options0] that
    by (simp add: run_def cs wprintfv_def options0_def split: prod.splits)
  with pa show ?thesis by simp
qed

text \<open>
  \<^verbatim>\<open>superUser.exe / abc\<close>, every call succeeding: the process is created from the
  command line \<^verbatim>\<open>/ abc\<close>.
\<close>

theorem bare_marker_is_command_witness:
  "parseArguments (L ''superUser.exe / abc'') None options0 =
     (0, options0, Some (L ''/ abc''), []) \<and>
   snd (wmain successEnv (L ''superUser.exe / abc'')) =
     [AcquireSeDebugPrivilege 0, GetTrustedInstallerProcess 0,
      InitializeProcThreadAttributeList, InitializeProcThreadAttributeList,
      UpdateProcThreadAttribute TIProcess,
      CreateProcessAsUser hNULL (L ''/ abc'') 0x80014 True True,
      DeleteProcThreadAttributeList, CloseHandle TIProcess,
      OpenProcessToken ChildProcess True, SetAllPrivileges ChildToken False False,
      CloseHandle ChildToken, ResumeThread ChildThread,
      CloseHandle ChildProcess, CloseHandle ChildThread]"
proof -
  have b: "parseArguments (L ''superUser.exe / abc'') None options0 =
        (0, options0, Some (0x2F # L '' abc''), []) \<and>
      (None = (None :: wstring option) \<longrightarrow>
       run successEnv (L ''superUser.exe / abc'') =
        (case elevate successEnv options0 (0x2F # cstr (L '' abc'')) of
           (errCode, n, t) \<Rightarrow> (errCode, options0, n, t)))"
    by (rule bare_marker_is_command [where bs = "[0x20]"])
      (simp_all add: L_def initCursor_def blanks_def stops_def)
  then show ?thesis
    by (simp add: wmain_def L_def cstr_def elevate_def createTrustedInstallerProcess_def
        deriveToken_def createChild_def superviseChild_def wprintfv_def successEnv_def
        options0_def CREATE_SUSPENDED_def EXTENDED_STARTUPINFO_PRESENT_def
        CREATE_NEW_CONSOLE_def Let_def)
qed

section \<open>The consistency check\<close>

text \<open>
  Claim C3, as amended. When parsing ends with r or s set and w not set, all the program
  does is print: no privilege, service, token or process call is made. Unless an option h
  was met, the exit code is that of an argument error, 1, or \<open>-1000001\<close> when r is set,
  and one error message is printed; this covers the check of line 298 (parsing ended with
  error code 0) and an invalid option met after r or s (error code 1). When an h was met,
  the help is printed and the exit code is 0.
\<close>

theorem inconsistent_options_rejected:
  assumes pa: "parseArguments cmdLine None options0 = (e, opts, cmd, out)"
    and rs: "bReturnCode opts \<or> bSeamless opts"
    and w: "\<not> bWait opts"
  shows "list_all isOutput (snd (wmain env cmdLine)) \<and>
         (e \<noteq> - 1 \<longrightarrow>
            fst (wmain env cmdLine) = (if bReturnCode opts then - (EXIT_CODE_BASE + 1) else 1) \<and>
            sint (fst (wmain env cmdLine)) = (if bReturnCode opts then - 1000001 else 1) \<and>
            snd (wmain env cmdLine) =
              [PrintError
                 (if e = 0 then ''/r or /s option requires /w'' else ''Invalid option'') 0]) \<and>
         (e = - 1 \<longrightarrow> wmain env cmdLine = (0, [PrintHelp]))"
proof -
  from parseArguments_code [OF pa]
  have c: "(e = 0 \<and> out = []) \<or> (e = 1 \<and> out = [PrintError ''Invalid option'' 0]) \<or>
      (e = - 1 \<and> out = [PrintHelp])"
    by auto
  have h: "run env cmdLine = (- 1, opts, 0, [PrintHelp])" if "e = - 1"
    using c pa that by (auto simp: run_def)
  have r: "run env cmdLine =
      (1, opts, 0, [PrintError (if e = 0 then ''/r or /s option requires /w'' else ''Invalid option'') 0])"
    if "e \<noteq> - 1"
    using c pa rs w that by (auto simp: run_def)
  show ?thesis
  proof (cases "e = - 1")
    case True
    with h show ?thesis
      by (simp add: wmain_def getExitCode_def)
  next
    case False
    with r show ?thesis
      by (simp add: wmain_def getExitCode_def EXIT_CODE_BASE_def)
  qed
qed

text \<open>
  \<^verbatim>\<open>/s /r\<close> gives \<open>-1000001\<close>, \<^verbatim>\<open>/s notepad.exe\<close> gives 1, \<^verbatim>\<open>/r /h\<close> gives the help
  and 0.
\<close>

theorem inconsistent_options_rejected_witness:
  "wmain successEnv (L ''superUser.exe /s /r'') =
     (- 1000001, [PrintError ''/r or /s option requires /w'' 0]) \<and>
   wmain successEnv (L ''superUser.exe /s notepad.exe'') =
     (1, [PrintError ''/r or /s option requires /w'' 0]) \<and>
   wmain successEnv (L ''superUser.exe /r /h'') = (0, [PrintHelp])"
proof -
  have a: "parseArguments (L ''superUser.exe /s /r'') None options0 =
      (0, \<lparr>bReturnCode = True, bSeamless = True, bVerbose = False, bWait = False\<rparr>, None, [])"
    by (simp add: eval_parse)
  have b: "parseArguments (L ''superUser.exe /s notepad.exe'') None options0 =
      (0, \<lparr>bReturnCode = False, bSeamless = True, bVerbose = False, bWait = False\<rparr>,
       Some (L ''notepad.exe''), [])"
    by (simp add: eval_parse)
  have c: "parseArguments (L ''superUser.exe /r /h'') None options0 =
      (- 1, \<lparr>bReturnCode = True, bSeamless = False, bVerbose = False, bWait = False\<rparr>,
       None, [PrintHelp])"
    by (simp add: eval_parse)
  show ?thesis
    using inconsistent_options_rejected [OF a, of successEnv]
      inconsistent_options_rejected [OF b, of successEnv]
      inconsistent_options_rejected [OF c, of successEnv]
    by (simp add: prod_eq_iff EXIT_CODE_BASE_def)
qed

text \<open>
  Claim C3 as it was stated fails when an h follows: in \<^verbatim>\<open>/r /h\<close> r is set, w is not,
  the help is printed and the exit code is 0 (lines 261-264 and 218).
\<close>

theorem help_after_r_counterexample:
  "run successEnv (L ''superUser.exe /r /h'') =
     (- 1, \<lparr>bReturnCode = True, bSeamless = False, bVerbose = False, bWait = False\<rparr>, 0,
      [PrintHelp]) \<and>
   wmain successEnv (L ''superUser.exe /r /h'') = (0, [PrintHelp])"
  by (simp add: wmain_def run_def getExitCode_def eval_parse)

section \<open>Facts about the launch\<close>

lemmas launch_defs =
  createTrustedInstallerProcess_def deriveToken_def createChild_def superviseChild_def
  wprintfv_def Let_def

lemmas flag_defs =
  CREATE_SUSPENDED_def EXTENDED_STARTUPINFO_PRESENT_def CREATE_NEW_CONSOLE_def

lemma all_handles_closed:
  "openHandles (snd (snd (createTrustedInstallerProcess env opts n img))) [] = []"
  by (simp add: launch_defs)

lemma createTrustedInstallerProcess_success:
  assumes "createTrustedInstallerProcess env opts n0 img = (0, n, t)"
  shows "n = (if bWait opts \<and> getExitCodeProcess_ok env then childExitCode env else n0) \<and>
         (bWait opts \<longrightarrow>
            GetExitCodeProcess ChildProcess (getExitCodeProcess_ok env) (childExitCode env) \<in> set t)"
  using assms by (auto simp: launch_defs split: if_splits)

lemma elevate_success:
  assumes "elevate env opts img = (0, n, t)"
  shows "n = (if bWait opts \<and> getExitCodeProcess_ok env then childExitCode env else 0) \<and>
         (bWait opts \<longrightarrow>
            GetExitCodeProcess ChildProcess (getExitCodeProcess_ok env) (childExitCode env) \<in> set t)"
proof -
  obtain e3 n3 t3 where c: "createTrustedInstallerProcess env opts 0 img = (e3, n3, t3)"
    by (cases "createTrustedInstallerProcess env opts 0 img")
  from assms c have "e3 = 0" "n3 = n" "set t3 \<subseteq> set t"
    by (auto simp: elevate_def Let_def split: if_splits prod.splits)
  with createTrustedInstallerProcess_success [of env opts 0 img n3 t3] c show ?thesis
    by auto
qed

lemma run_success:
  assumes "run env cmdLine = (0, opts, n, t)"
  shows "(bReturnCode opts \<or> bSeamless opts \<longrightarrow> bWait opts) \<and>
         n = (if bWait opts \<and> getExitCodeProcess_ok env then childExitCode env else 0) \<and>
         (bWait opts \<longrightarrow>
            GetExitCodeProcess ChildProcess (getExitCodeProcess_ok env) (childExitCode env) \<in> set t)"
proof -
  obtain e po cmd out where pa: "parseArguments cmdLine None options0 = (e, po, cmd, out)"
    by (cases "parseArguments cmdLine None options0") auto
  define img where "img = cstr (case cmd of None \<Rightarrow> L ''cmd.exe'' | Some c \<Rightarrow> c)"
  obtain e1 n1 t1 where el: "elevate env po img = (e1, n1, t1)"
    by (cases "elevate env po img")
  from assms pa have e0: "e = 0" and oo: "po = opts"
    and cons: "\<not> ((bReturnCode po \<or> bSeamless po) \<and> \<not> bWait po)"
    by (auto simp: run_def Let_def split: if_splits prod.splits)
  from assms pa e0 cons el have "e1 = 0" "n1 = n" "set t1 \<subseteq> set t"
    by (auto simp: run_def Let_def img_def split: if_splits)
  with elevate_success [of env po img n1 t1] el oo cons show ?thesis
    by auto
qed

section \<open>Strategy A: the child is suspended until its token was customised\<close>

text \<open>
  Claim C1. Not in seamless mode, whatever the calls answer: every
  \<^verbatim>\<open>CreateProcessAsUser\<close> call has \<^verbatim>\<open>CREATE_SUSPENDED\<close> among its flags; no thread is
  resumed before \<^verbatim>\<open>setAllPrivileges\<close> was called on what \<^verbatim>\<open>OpenProcessToken\<close> gave
  for the child; the child's thread is resumed exactly when the TrustedInstaller process
  was obtained and the creation succeeded, whether or not the token could be opened and
  the privileges set; and once the TrustedInstaller process was obtained the creation
  call is made, with the suspended, extended-startup-information and new-console flags
  and the attribute list.
\<close>

theorem strategyA_suspended_until_customised:
  assumes "\<not> bSeamless opts"
  shows "creationFlags (\<lambda>fl. fl AND CREATE_SUSPENDED = CREATE_SUSPENDED)
           (snd (snd (createTrustedInstallerProcess env opts n img))) \<and>
         resumeOrder None False (snd (snd (createTrustedInstallerProcess env opts n img))) \<and>
         (ResumeThread ChildThread \<in> set (snd (snd (createTrustedInstallerProcess env opts n img))))
           = (getTrustedInstallerProcess_ret env = 0 \<and> createProcessAsUser_ok env) \<and>
         (getTrustedInstallerProcess_ret env = 0 \<longrightarrow>
            CreateProcessAsUser hNULL img
              (CREATE_SUSPENDED OR EXTENDED_STARTUPINFO_PRESENT OR CREATE_NEW_CONSOLE) True
              (createProcessAsUser_ok env)
            \<in> set (snd (snd (createTrustedInstallerProcess env opts n img))))"
  using assms by (simp add: launch_defs flag_defs)

text \<open>
  A run in which the child's token cannot be opened and no privilege is set: the thread
  is resumed all the same, after the attempt.
\<close>

theorem strategyA_suspended_until_customised_witness:
  "resumeOrder None False
     (snd (snd (createTrustedInstallerProcess (successEnv\<lparr>openProcessToken_ok := False\<rparr>)
        options0 0 (L ''cmd.exe'')))) \<and>
   ResumeThread ChildThread
     \<in> set (snd (snd (createTrustedInstallerProcess (successEnv\<lparr>openProcessToken_ok := False\<rparr>)
          options0 0 (L ''cmd.exe'')))) \<and>
   CreateProcessAsUser hNULL (L ''cmd.exe'') 0x80014 True True
     \<in> set (snd (snd (createTrustedInstallerProcess (successEnv\<lparr>openProcessToken_ok := False\<rparr>)
          options0 0 (L ''cmd.exe''))))"
proof -
  have h: "\<not> bSeamless options0"
    by (simp add: options0_def)
  from strategyA_suspended_until_customised
    [OF h, of "successEnv\<lparr>openProcessToken_ok := False\<rparr>" 0 "L ''cmd.exe''"]
  show ?thesis
    by (simp add: successEnv_def flag_defs)
qed

section \<open>Strategy B: the direct creation\<close>



section \<open>A token that cannot be derived\<close>

text \<open>
  Claim C8. In seamless mode, when the TrustedInstaller process was obtained and
  \<^verbatim>\<open>getTrustedInstallerToken\<close> returns an error code, the function returns that code and
  leaves \<^verbatim>\<open>nChildExitCode\<close> as it was; its calls are the two that obtain the process and
  ask for the token and the \<^verbatim>\<open>CloseHandle\<close> of the process handle, so that no handle
  is open when it returns.
\<close>

theorem token_failure_releases_process:
  assumes "bSeamless opts"
    and "getTrustedInstallerProcess_ret env = 0"
    and "getTrustedInstallerToken_ret env = c"
    and "c \<noteq> 0"
  shows "createTrustedInstallerProcess env opts n img =
           (c, n, [GetTrustedInstallerProcess 0, GetTrustedInstallerToken TIProcess c,
                   CloseHandle TIProcess]) \<and>
         openHandles (snd (snd (createTrustedInstallerProcess env opts n img))) [] = []"
  using assms by (simp add: launch_defs)

text \<open>The token call returns 5.\<close>

theorem token_failure_releases_process_witness:
  "createTrustedInstallerProcess (successEnv\<lparr>getTrustedInstallerToken_ret := 5\<rparr>)
     (options0\<lparr>bSeamless := True, bWait := True\<rparr>) 0 (L ''cmd.exe'') =
     (5, 0, [GetTrustedInstallerProcess 0, GetTrustedInstallerToken TIProcess 5,
             CloseHandle TIProcess])"
proof -
  have "createTrustedInstallerProcess (successEnv\<lparr>getTrustedInstallerToken_ret := 5\<rparr>)
      (options0\<lparr>bSeamless := True, bWait := True\<rparr>) 0 (L ''cmd.exe'') =
      (5, 0, [GetTrustedInstallerProcess 0, GetTrustedInstallerToken TIProcess 5,
              CloseHandle TIProcess]) \<and>
    openHandles (snd (snd (createTrustedInstallerProcess
      (successEnv\<lparr>getTrustedInstallerToken_ret := 5\<rparr>)
      (options0\<lparr>bSeamless := True, bWait := True\<rparr>) 0 (L ''cmd.exe'')))) [] = []"
    by (rule token_failure_releases_process) (simp_all add: successEnv_def)
  then show ?thesis by simp
qed

section \<open>The session of the token\<close>

text \<open>
  Claim C10. In seamless mode, once the TrustedInstaller process and its token were
  obtained: when \<^verbatim>\<open>WTSGetActiveConsoleSessionId\<close> answers \<^verbatim>\<open>(DWORD) -1\<close>, no
  \<^verbatim>\<open>SetTokenInformation\<close> call is made; otherwise it is made on the token with that
  session id. What it answers changes nothing: the error code, \<^verbatim>\<open>nChildExitCode\<close>
  and all other calls are the same whether it succeeds or fails, and the launch goes on
  to \<^verbatim>\<open>setAllPrivileges\<close> on the token and to \<^verbatim>\<open>CreateProcessAsUser\<close>.
\<close>

theorem session_rebinding_unchecked:
  assumes "bSeamless opts"
    and "getTrustedInstallerProcess_ret env = 0"
    and "getTrustedInstallerToken_ret env = 0"
  shows "(activeConsoleSessionId env = - 1 \<longrightarrow>
            \<not> list_ex isSetTokenInformation (snd (snd (createTrustedInstallerProcess env opts n img)))) \<and>
         (activeConsoleSessionId env \<noteq> - 1 \<longrightarrow>
            SetTokenInformation TIToken (activeConsoleSessionId env) (setTokenInformation_ok env)
            \<in> set (snd (snd (createTrustedInstallerProcess env opts n img)))) \<and>
         fst (createTrustedInstallerProcess (env\<lparr>setTokenInformation_ok := b\<rparr>) opts n img)
           = fst (createTrustedInstallerProcess env opts n img) \<and>
         fst (snd (createTrustedInstallerProcess (env\<lparr>setTokenInformation_ok := b\<rparr>) opts n img))
           = fst (snd (createTrustedInstallerProcess env opts n img)) \<and>
         otherCalls (snd (snd (createTrustedInstallerProcess (env\<lparr>setTokenInformation_ok := b\<rparr>) opts n img)))
           = otherCalls (snd (snd (createTrustedInstallerProcess env opts n img))) \<and>
         SetAllPrivileges TIToken (bVerbose opts) (setAllPrivileges_ok env TIToken)
           \<in> set (snd (snd (createTrustedInstallerProcess env opts n img))) \<and>
         CreateProcessAsUser TIToken img 0 False (createProcessAsUser_ok env)
           \<in> set (snd (snd (createTrustedInstallerProcess env opts n img)))"
  using assms by (simp add: launch_defs otherCalls_def)

text \<open>
  Session 1 with a \<^verbatim>\<open>SetTokenInformation\<close> that fails, and no active session: the
  process is created in both runs.
\<close>

theorem session_rebinding_unchecked_witness:
  "SetTokenInformation TIToken 1 False
     \<in> set (snd (snd (createTrustedInstallerProcess successEnv
          (options0\<lparr>bSeamless := True, bWait := True\<rparr>) 0 (L ''cmd.exe'')))) \<and>
   CreateProcessAsUser TIToken (L ''cmd.exe'') 0 False True
     \<in> set (snd (snd (createTrustedInstallerProcess successEnv
          (options0\<lparr>bSeamless := True, bWait := True\<rparr>) 0 (L ''cmd.exe'')))) \<and>
   \<not> list_ex isSetTokenInformation
     (snd (snd (createTrustedInstallerProcess (successEnv\<lparr>activeConsoleSessionId := - 1\<rparr>)
        (options0\<lparr>bSeamless := True, bWait := True\<rparr>) 0 (L ''cmd.exe'')))) \<and>
   CreateProcessAsUser TIToken (L ''cmd.exe'') 0 False True
     \<in> set (snd (snd (createTrustedInstallerProcess (successEnv\<lparr>activeConsoleSessionId := - 1\<rparr>)
          (options0\<lparr>bSeamless := True, bWait := True\<rparr>) 0 (L ''cmd.exe''))))"
proof -
  have h: "bSeamless (options0\<lparr>bSeamless := True, bWait := True\<rparr>)"
    by simp
  have a: "getTrustedInstallerProcess_ret successEnv = 0"
    "getTrustedInstallerToken_ret successEnv = 0"
    by (simp_all add: successEnv_def)
  have b: "getTrustedInstallerProcess_ret (successEnv\<lparr>activeConsoleSessionId := - 1\<rparr>) = 0"
    "getTrustedInstallerToken_ret (successEnv\<lparr>activeConsoleSessionId := - 1\<rparr>) = 0"
    by (simp_all add: successEnv_def)
  from session_rebinding_unchecked [OF h a, of 0 "L ''cmd.exe''" True]
    session_rebinding_unchecked [OF h b, of 0 "L ''cmd.exe''" True]
  show ?thesis
    by (simp add: successEnv_def)
qed

section \<open>The exit code with and without option r\<close>

text \<open>
  Once the parser has read an option r: when the launch succeeded (\<^verbatim>\<open>wmain\<close> reaches
  its last \<^verbatim>\<open>return\<close> with error code 0) and \<^verbatim>\<open>GetExitCodeProcess\<close> succeeded, w is
  set too and the exit code of the program is the exit status of the child; when the
  program fails with one of the error codes 1 to 5, its exit code is the negative of
  1000000 plus that code, also when read as a signed 32-bit number.
\<close>

lemma return_code_option:
  assumes r: "run env cmdLine = (code, opts, n, t)"
    and rc: "bReturnCode opts"
  shows "(code = 0 \<longrightarrow> getExitCodeProcess_ok env \<longrightarrow>
            bWait opts \<and> fst (wmain env cmdLine) = childExitCode env) \<and>
         (listedCode code \<longrightarrow>
            fst (wmain env cmdLine) = - (EXIT_CODE_BASE + code) \<and>
            sint (fst (wmain env cmdLine)) = - (1000000 + sint code))"
proof -
  have a: "bWait opts \<and> fst (wmain env cmdLine) = childExitCode env"
    if "code = 0" "getExitCodeProcess_ok env"
    using run_success [of env cmdLine opts n t] r rc that
    by (simp add: wmain_def getExitCode_def)
  have b: "fst (wmain env cmdLine) = - (EXIT_CODE_BASE + code) \<and>
      sint (fst (wmain env cmdLine)) = - (1000000 + sint code)" if "listedCode code"
    using r rc that
    by (auto simp: wmain_def getExitCode_def listedCode_def EXIT_CODE_BASE_def)
  from a b show ?thesis by blast
qed

text \<open>
  \<^verbatim>\<open>/w /r notepad.exe\<close>: the child exits with 7 and the program returns 7; when the
  creation fails, it returns \<open>-1000004\<close>.
\<close>

lemma return_code_option_example:
  "fst (wmain successEnv (L ''superUser.exe /w /r notepad.exe'')) = 7 \<and>
   sint (fst (wmain (successEnv\<lparr>createProcessAsUser_ok := False\<rparr>)
     (L ''superUser.exe /w /r notepad.exe''))) = - 1000004"
proof -
  have "\<exists>t. run successEnv (L ''superUser.exe /w /r notepad.exe'') =
      (0, \<lparr>bReturnCode = True, bSeamless = False, bVerbose = False, bWait = True\<rparr>, 7, t)"
    by (simp add: run_def elevate_def launch_defs eval_parse cstr_def successEnv_def)
  then obtain t where a: "run successEnv (L ''superUser.exe /w /r notepad.exe'') =
      (0, \<lparr>bReturnCode = True, bSeamless = False, bVerbose = False, bWait = True\<rparr>, 7, t)" ..
  have "\<exists>t. run (successEnv\<lparr>createProcessAsUser_ok := False\<rparr>)
      (L ''superUser.exe /w /r notepad.exe'') =
      (4, \<lparr>bReturnCode = True, bSeamless = False, bVerbose = False, bWait = True\<rparr>, 0, t)"
    by (simp add: run_def elevate_def launch_defs eval_parse cstr_def successEnv_def)
  then obtain u where b: "run (successEnv\<lparr>createProcessAsUser_ok := False\<rparr>)
      (L ''superUser.exe /w /r notepad.exe'') =
      (4, \<lparr>bReturnCode = True, bSeamless = False, bVerbose = False, bWait = True\<rparr>, 0, u)" ..
  from return_code_option [OF a] return_code_option [OF b]
  show ?thesis
    by (simp add: successEnv_def listedCode_def EXIT_CODE_BASE_def)
qed

text \<open>
  Claim C6 says that, when option r is given, the exit code of the program is the exit
  status of the child after a successful launch and the negative of 1000000 plus the
  error code after a failure, as the header comment of lines 38-40 does. The code does so
  only for an r that the parser has read. In \<^verbatim>\<open>/x /r\<close> and in \<^verbatim>\<open>/xr\<close> the invalid x
  ends parsing (lines 277-280) before the r is read, \<^verbatim>\<open>getExitCode\<close> finds
  \<^verbatim>\<open>bReturnCode\<close> unset (line 219), and the program returns 1 where the claim says
  \<open>-1000001\<close>; with the r in front, \<^verbatim>\<open>/r /x\<close>, it returns \<open>-1000001\<close>.
\<close>

theorem return_code_lost_after_invalid_option:
  "wmain successEnv (L ''superUser.exe /x /r'') = (1, [PrintError ''Invalid option'' 0]) \<and>
   wmain successEnv (L ''superUser.exe /xr'') = (1, [PrintError ''Invalid option'' 0]) \<and>
   wmain successEnv (L ''superUser.exe /r /x'') = (- 1000001, [PrintError ''Invalid option'' 0])"
  by (simp add: wmain_def run_def getExitCode_def EXIT_CODE_BASE_def eval_parse)

text \<open>
  Claim C7. With option w set and option r not set, when the launch succeeded the exit
  code of the program is 0, although the exit status of the child was read and stored in
  \<^verbatim>\<open>nChildExitCode\<close>.
\<close>

theorem wait_without_return_code:
  assumes r: "run env cmdLine = (0, opts, n, t)"
    and w: "bWait opts"
    and rc: "\<not> bReturnCode opts"
  shows "fst (wmain env cmdLine) = 0 \<and>
         n = (if getExitCodeProcess_ok env then childExitCode env else 0) \<and>
         GetExitCodeProcess ChildProcess (getExitCodeProcess_ok env) (childExitCode env) \<in> set t"
  using run_success [OF r] r w rc
  by (simp add: wmain_def getExitCode_def)

text \<open>\<^verbatim>\<open>/w notepad.exe\<close>: the child exits with 7, the program with 0.\<close>

theorem wait_without_return_code_witness:
  "fst (wmain successEnv (L ''superUser.exe /w notepad.exe'')) = 0 \<and>
   childExitCode successEnv = 7"
proof -
  have "\<exists>t. run successEnv (L ''superUser.exe /w notepad.exe'') =
      (0, \<lparr>bReturnCode = False, bSeamless = False, bVerbose = False, bWait = True\<rparr>, 7, t)"
    by (simp add: run_def elevate_def launch_defs eval_parse cstr_def successEnv_def)
  then obtain t where a: "run successEnv (L ''superUser.exe /w notepad.exe'') =
      (0, \<lparr>bReturnCode = False, bSeamless = False, bVerbose = False, bWait = True\<rparr>, 7, t)" ..
  from wait_without_return_code [OF a]
  show ?thesis
    by (simp add: successEnv_def)
qed

end
